theory Spec2Isabelle
  imports Main
begin

section \<open>Python strings\<close>

text \<open>
  A Python \<open>str\<close> is a sequence of code points. It is modelled by \<^typ>\<open>string\<close>, each
  \<^typ>\<open>char\<close> standing for one code point in the range U+0000 to U+00FF (so
  \<open>length\<close> counts code points, as Python's \<open>len\<close> does). Strings holding a code point
  above U+00FF are outside the model. The character classes below are the ones of
  Python 3 on that range.
\<close>

definition code :: "char \<Rightarrow> nat" where
  "code c = of_char c"

text \<open>\<open>str.isspace\<close>, which is also the set that \<open>str.strip()\<close> removes.\<close>

definition isspace :: "char \<Rightarrow> bool" where
  "isspace c = ((9 \<le> code c \<and> code c \<le> 13) \<or> (28 \<le> code c \<and> code c \<le> 32)
     \<or> code c = 133 \<or> code c = 160)"

definition ascii_digit :: "char \<Rightarrow> bool" where
  "ascii_digit c = (48 \<le> code c \<and> code c \<le> 57)"

definition ascii_upper :: "char \<Rightarrow> bool" where
  "ascii_upper c = (65 \<le> code c \<and> code c \<le> 90)"

definition ascii_lower :: "char \<Rightarrow> bool" where
  "ascii_lower c = (97 \<le> code c \<and> code c \<le> 122)"

text \<open>
  \<open>str.isalnum\<close>: the ASCII letters and digits, and beyond ASCII the feminine and
  masculine ordinal indicators, the micro sign, the superscripts and vulgar fractions,
  and the accented letters U+00C0 to U+00FF without the multiplication and division
  signs.
\<close>

definition isalnum :: "char \<Rightarrow> bool" where
  "isalnum c = (ascii_digit c \<or> ascii_upper c \<or> ascii_lower c
     \<or> code c = 170 \<or> code c = 178 \<or> code c = 179 \<or> code c = 181
     \<or> code c = 185 \<or> code c = 186 \<or> (188 \<le> code c \<and> code c \<le> 190)
     \<or> (192 \<le> code c \<and> code c \<le> 214) \<or> (216 \<le> code c \<and> code c \<le> 246)
     \<or> 248 \<le> code c)"

text \<open>
  \<open>str.lower\<close> works character by character on this range: the ASCII capitals and
  the capitals U+00C0 to U+00DE (without the multiplication sign) move up by 32.
\<close>

definition lower_char :: "char \<Rightarrow> char" where
  "lower_char c = (if ascii_upper c \<or> (192 \<le> code c \<and> code c \<le> 214)
        \<or> (216 \<le> code c \<and> code c \<le> 222)
     then char_of (code c + 32) else c)"

definition lower :: "string \<Rightarrow> string" where
  "lower s = map lower_char s"

text \<open>\<open>s.strip(chars)\<close> for a set of characters given as a predicate.\<close>

definition strip_where :: "(char \<Rightarrow> bool) \<Rightarrow> string \<Rightarrow> string" where
  "strip_where p s = rev (dropWhile p (rev (dropWhile p s)))"

definition strip :: "string \<Rightarrow> string" where
  "strip s = strip_where isspace s"

definition rstrip_char :: "char \<Rightarrow> string \<Rightarrow> string" where
  "rstrip_char c s = rev (dropWhile (\<lambda>x. x = c) (rev s))"

text \<open>\<open>s.find(c)\<close> and \<open>s.rfind(c)\<close> for a single character: an index, or -1.\<close>

definition find :: "char \<Rightarrow> string \<Rightarrow> int" where
  "find c s = (if c \<in> set s then int (length (takeWhile (\<lambda>x. x \<noteq> c) s)) else - 1)"

definition rfind :: "char \<Rightarrow> string \<Rightarrow> int" where
  "rfind c s = (if c \<in> set s
     then int (length s) - 1 - int (length (takeWhile (\<lambda>x. x \<noteq> c) (rev s))) else - 1)"

text \<open>The slice \<open>s[i:j]\<close> for indices that are not negative.\<close>

definition slice :: "string \<Rightarrow> int \<Rightarrow> int \<Rightarrow> string" where
  "slice s i j = drop (nat i) (take (nat j) s)"

text \<open>\<open>s.split(sep)\<close> for a separator of one character: never the empty list.\<close>

fun split :: "char \<Rightarrow> string \<Rightarrow> string list" where
  "split sep [] = [[]]"
| "split sep (c # cs) =
     (if c = sep then [] # split sep cs
      else (case split sep cs of [] \<Rightarrow> [[c]] | x # xs \<Rightarrow> (c # x) # xs))"

section \<open>Exceptions and the JSON decoder\<close>

text \<open>A Python exception: its class name and its message (what \<open>str(e)\<close> gives).\<close>

datatype exn = Exn string string

text \<open>Sequencing two steps, the second of which runs only when the first returns.\<close>

definition and_then :: "exn + 'a \<Rightarrow> ('a \<Rightarrow> exn + 'b) \<Rightarrow> exn + 'b" where
  "and_then r f = (case r of Inl e \<Rightarrow> Inl e | Inr x \<Rightarrow> f x)"

text \<open>
  What \<open>_parse_tags\<close> sees of a decoded JSON document: whether it is a list, and the
  \<open>str()\<close> of each element (a string is its own \<open>str()\<close>; for any other element
  the rendering is carried along).
\<close>

datatype element = Str string | NonStr string

datatype json = JList "element list" | JNotList

fun py_str :: "element \<Rightarrow> string" where
  "py_str (Str s) = s"
| "py_str (NonStr r) = r"

text \<open>
  \<open>json.loads\<close> belongs to Python's standard library, not to the repository. On a
  text that is a JSON array of string literals without escape sequences its result is
  computed here; on every other text it is read from the parameter \<open>lib\<close>, which
  stands for the library's behaviour there (\<open>Inl\<close>: the call raises).
\<close>

definition json_ws :: "char \<Rightarrow> bool" where
  "json_ws c = (c = CHR '' '' \<or> c = CHR 0x09 \<or> c = CHR 0x0A \<or> c = CHR 0x0D)"

definition skip_ws :: "string \<Rightarrow> string" where
  "skip_ws s = dropWhile json_ws s"

text \<open>
  The characters of a string literal after its opening quote, up to the closing quote,
  and the text that follows. A control character or a backslash leaves the fragment.
\<close>

fun scan_chars :: "string \<Rightarrow> (string \<times> string) option" where
  "scan_chars [] = None"
| "scan_chars (c # cs) =
     (if c = CHR 0x22 then Some ([], cs)
      else if c = CHR 0x5C \<or> code c < 32 then None
      else (case scan_chars cs of None \<Rightarrow> None | Some (s, rest) \<Rightarrow> Some (c # s, rest)))"

text \<open>
  The items of an array from the first item on, and the text after the closing bracket.
  The first argument bounds the number of items by the length of the text.
\<close>

fun scan_items :: "nat \<Rightarrow> string \<Rightarrow> (string list \<times> string) option" where
  "scan_items 0 s = None"
| "scan_items (Suc n) [] = None"
| "scan_items (Suc n) (c # cs) =
     (if c \<noteq> CHR 0x22 then None
      else (case scan_chars cs of
          None \<Rightarrow> None
        | Some (item, rest) \<Rightarrow>
            (case skip_ws rest of
               [] \<Rightarrow> None
             | d # r \<Rightarrow>
                 if d = CHR '']'' then Some ([item], r)
                 else if d = CHR '','' then
                   (case scan_items n (skip_ws r) of
                      None \<Rightarrow> None
                    | Some (items, r') \<Rightarrow> Some (item # items, r'))
                 else None)))"

definition string_array :: "string \<Rightarrow> string list option" where
  "string_array s =
     (case skip_ws s of
        [] \<Rightarrow> None
      | c # r \<Rightarrow>
          if c \<noteq> CHR ''['' then None
          else (case skip_ws r of
              [] \<Rightarrow> None
            | d # r' \<Rightarrow>
                if d = CHR '']'' then (if skip_ws r' = [] then Some [] else None)
                else (case scan_items (length r) (d # r') of
                    None \<Rightarrow> None
                  | Some (items, r'') \<Rightarrow> if skip_ws r'' = [] then Some items else None)))"

definition json_loads :: "(string \<Rightarrow> exn + json) \<Rightarrow> string \<Rightarrow> exn + json" where
  "json_loads lib s =
     (case string_array s of Some items \<Rightarrow> Inr (JList (map Str items)) | None \<Rightarrow> lib s)"

text \<open>A library that rejects every text outside the fragment; used for closed examples.\<close>

definition rejecting :: "string \<Rightarrow> exn + json" where
  "rejecting s = Inl (Exn ''JSONDecodeError'' ''Expecting value'')"

section \<open>Normalizing the reply: \<open>_strip_think_blocks\<close> and \<open>_parse_tags\<close>\<close>

text \<open>
  \<open>re.sub(r"<think>.*?</think>", "", text, flags=re.DOTALL | re.IGNORECASE)\<close>: the
  scan goes from left to right; where the text continues with the opening tag (in any
  mix of cases) and a closing tag follows it, everything up to the end of the first such
  closing tag is dropped (the dot matches every character under DOTALL) and the scan goes
  on behind it; otherwise the character is kept.
\<close>

definition ci_prefix :: "string \<Rightarrow> string \<Rightarrow> bool" where
  "ci_prefix p s = (length p \<le> length s \<and> lower (take (length p) s) = p)"

fun after_close :: "string \<Rightarrow> string option" where
  "after_close [] = None"
| "after_close (c # cs) =
     (if ci_prefix ''</think>'' (c # cs) then Some (drop 8 (c # cs)) else after_close cs)"

function strip_think_blocks :: "string \<Rightarrow> string" where
  "strip_think_blocks [] = []"
| "strip_think_blocks (c # cs) =
     (if ci_prefix ''<think>'' (c # cs)
      then (case after_close (drop 7 (c # cs)) of
              None \<Rightarrow> c # strip_think_blocks cs
            | Some rest \<Rightarrow> strip_think_blocks rest)
      else c # strip_think_blocks cs)"
  by pat_completeness auto
termination
proof (relation "measure length")
  show "wf (measure (length :: string \<Rightarrow> nat))"
    by simp
next
  fix c :: char and cs :: string
  show "(cs, c # cs) \<in> measure length"
    by simp
next
  fix c :: char and cs rest :: string
  assume found: "after_close (drop 7 (c # cs)) = Some rest"
  have shorter: "after_close s = Some r \<Longrightarrow> length r < length s" for s r
  proof (induction s)
    case Nil
    then show ?case by simp
  next
    case (Cons a s)
    then show ?case
      by (auto simp: ci_prefix_def split: if_splits)
  qed
  have "length rest < length (drop 7 (c # cs))"
    using shorter [OF found] .
  then show "(rest, c # cs) \<in> measure length"
    by simp
next
  fix c :: char and cs :: string
  show "(cs, c # cs) \<in> measure length"
    by simp
qed

text \<open>The body of the \<open>try\<close> block of \<open>_parse_tags\<close> (lines 294 to 296).\<close>

definition json_candidates :: "(string \<Rightarrow> exn + json) \<Rightarrow> string \<Rightarrow> exn + string list" where
  "json_candidates lib maybe_json =
     (case json_loads lib maybe_json of
        Inl e \<Rightarrow> Inl e
      | Inr (JList arr) \<Rightarrow> Inr (map py_str arr)
      | Inr JNotList \<Rightarrow> Inr [])"

text \<open>Lines 288 to 301: the candidates, from the JSON array or from the fallback split.\<close>

definition candidates :: "(string \<Rightarrow> exn + json) \<Rightarrow> string \<Rightarrow> string list" where
  "candidates lib text0 =
     (let text = strip text0;
          start = find (CHR ''['') text;
          end' = rfind (CHR '']'') text;
          tags = (if start \<noteq> - 1 \<and> end' \<noteq> - 1 \<and> end' > start
                  then (case json_candidates lib (slice text start (end' + 1)) of
                          Inl e \<Rightarrow> []
                        | Inr ts \<Rightarrow> ts)
                  else [])
      in if tags = []
         then (let sep = (if CHR '','' \<in> set text then CHR '','' else CHR 0x0A)
               in map strip (split sep text))
         else tags)"

text \<open>Lines 305 and 306: cleaning one candidate.\<close>

definition kept_char :: "char \<Rightarrow> bool" where
  "kept_char ch = (isalnum ch \<or> ch \<in> set ''- _'')"

definition clean :: "string \<Rightarrow> string" where
  "clean t = filter kept_char (lower (strip (strip_where (\<lambda>c. c = CHR ''#'') (strip t))))"

text \<open>Lines 303 to 308.\<close>

fun cleaned :: "string list \<Rightarrow> string list" where
  "cleaned [] = []"
| "cleaned (t # ts) =
     (if 1 \<le> length (clean t) \<and> length (clean t) \<le> 50
      then clean t # cleaned ts else cleaned ts)"

text \<open>Lines 309 to 314: the loop over \<open>cleaned\<close>, with the set \<open>seen\<close> and the list \<open>uniq\<close>.\<close>

fun uniq_loop :: "string list \<Rightarrow> string set \<Rightarrow> string list \<Rightarrow> string list" where
  "uniq_loop [] seen uniq = uniq"
| "uniq_loop (t # ts) seen uniq =
     (if t \<noteq> [] \<and> t \<notin> seen then uniq_loop ts (insert t seen) (uniq @ [t])
      else uniq_loop ts seen uniq)"

definition parse_tags :: "(string \<Rightarrow> exn + json) \<Rightarrow> string \<Rightarrow> string list" where
  "parse_tags lib text = uniq_loop (cleaned (candidates lib text)) {} []"

text \<open>Normalization as \<open>tags_from_image\<close> applies it (lines 386 and 387).\<close>

definition normalize :: "(string \<Rightarrow> exn + json) \<Rightarrow> string \<Rightarrow> string list" where
  "normalize lib content = parse_tags lib (strip_think_blocks content)"

text \<open>
  The same two steps with the exceptions written out: the result is a sum, \<open>Inl\<close> for
  an exception that leaves the function. On a string, the calls of \<open>_parse_tags\<close>
  outside its \<open>try\<close> block (\<open>strip\<close>, \<open>find\<close>, \<open>rfind\<close>, the slice, \<open>split\<close>
  with a separator of one character, \<open>lower\<close>, \<open>isalnum\<close>, \<open>join\<close>, \<open>len\<close>, the
  set of strings) return, and so does \<open>re.sub\<close>; inside the block \<open>json.loads\<close> and
  \<open>str\<close> can raise. \<open>try_except body handler\<close> is \<open>try: body except Exception as e:
  handler\<close>; the handler of lines 297 and 298 is \<open>pass\<close>, which leaves \<open>tags\<close> empty.
\<close>

definition try_except :: "exn + 'a \<Rightarrow> (exn \<Rightarrow> exn + 'a) \<Rightarrow> exn + 'a" where
  "try_except body handler = (case body of Inl e \<Rightarrow> handler e | Inr x \<Rightarrow> Inr x)"

definition parse_tags_checked :: "(string \<Rightarrow> exn + json) \<Rightarrow> string \<Rightarrow> exn + string list" where
  "parse_tags_checked lib text0 =
     (let text = strip text0;
          start = find (CHR ''['') text;
          end' = rfind (CHR '']'') text
      in and_then
           (if start \<noteq> - 1 \<and> end' \<noteq> - 1 \<and> end' > start
            then try_except (json_candidates lib (slice text start (end' + 1))) (\<lambda>e. Inr [])
            else Inr [])
           (\<lambda>tags.
              Inr (uniq_loop
                (cleaned
                  (if tags = []
                   then (let sep = (if CHR '','' \<in> set text then CHR '','' else CHR 0x0A)
                         in map strip (split sep text))
                   else tags)) {} [])))"

definition normalize_checked :: "(string \<Rightarrow> exn + json) \<Rightarrow> string \<Rightarrow> exn + string list" where
  "normalize_checked lib content =
     and_then (Inr (strip_think_blocks content)) (parse_tags_checked lib)"

text \<open>
  The pattern \<open>^[a-z0-9 _-]{1,50}$\<close> that the specification gives for a tag, as a
  test on a string.
\<close>

definition tag_char :: "char \<Rightarrow> bool" where
  "tag_char c = (ascii_lower c \<or> ascii_digit c \<or> c = CHR '' '' \<or> c = CHR ''_'' \<or> c = CHR ''-'')"

definition tag_regex :: "string \<Rightarrow> bool" where
  "tag_regex t = (1 \<le> length t \<and> length t \<le> 50 \<and> list_all tag_char t)"

section \<open>Values that come from the host\<close>

text \<open>
  The invocation input \<open>stash.JSON_INPUT\<close> and the answers of the host's queries are
  decoded JSON: \<open>None\<close>, booleans, integers, floats, strings, lists and dictionaries
  (a dictionary as the list of its items, looked up from the front). A float is finite
  and is given by what the program can observe of it: its \<open>int()\<close> and its \<open>repr()\<close>.
\<close>

datatype jval =
    JNull
  | JBool bool
  | JInt int
  | JFloat int string
  | JStr string
  | JArr "jval list"
  | JObj "(string \<times> jval) list"

text \<open>The truth value of an object, as \<open>if x\<close>, \<open>not x\<close> and \<open>x or y\<close> test it.\<close>

fun truthy :: "jval \<Rightarrow> bool" where
  "truthy JNull = False"
| "truthy (JBool b) = b"
| "truthy (JInt n) = (n \<noteq> 0)"
| "truthy (JFloat n r) = (r \<noteq> ''0.0'' \<and> r \<noteq> ''-0.0'')"
| "truthy (JStr s) = (s \<noteq> [])"
| "truthy (JArr xs) = (xs \<noteq> [])"
| "truthy (JObj kvs) = (kvs \<noteq> [])"

definition or_else :: "jval \<Rightarrow> jval \<Rightarrow> jval" where
  "or_else x y = (if truthy x then x else y)"

fun type_name :: "jval \<Rightarrow> string" where
  "type_name JNull = ''NoneType''"
| "type_name (JBool b) = ''bool''"
| "type_name (JInt n) = ''int''"
| "type_name (JFloat n r) = ''float''"
| "type_name (JStr s) = ''str''"
| "type_name (JArr xs) = ''list''"
| "type_name (JObj kvs) = ''dict''"

text \<open>\<open>d.get(k)\<close> and \<open>d.get(k, default)\<close>: only a dictionary has the method.\<close>

definition no_get :: "jval \<Rightarrow> exn" where
  "no_get d = Exn ''AttributeError'' (type_name d @ '' object has no attribute get'')"

fun get_or :: "jval \<Rightarrow> string \<Rightarrow> jval \<Rightarrow> exn + jval" where
  "get_or (JObj kvs) k dflt = Inr (case map_of kvs k of None \<Rightarrow> dflt | Some v \<Rightarrow> v)"
| "get_or d k dflt = Inl (no_get d)"

definition get :: "jval \<Rightarrow> string \<Rightarrow> exn + jval" where
  "get d k = get_or d k JNull"

text \<open>\<open>str(n)\<close> for an integer: its decimal digits, with a minus sign when negative.\<close>

fun digits :: "nat \<Rightarrow> string" where
  "digits n = (if n < 10 then [char_of (48 + n)]
     else digits (n div 10) @ [char_of (48 + n mod 10)])"

declare digits.simps [simp del]

definition str_int :: "int \<Rightarrow> string" where
  "str_int i = (if i < 0 then CHR ''-'' # digits (nat (- i)) else digits (nat i))"

text \<open>\<open>os.path.join(a, b)\<close> with \<open>/\<close> as the separator.\<close>

definition path_join :: "string \<Rightarrow> string \<Rightarrow> string" where
  "path_join a b =
     (if b \<noteq> [] \<and> hd b = CHR ''/'' then b
      else if a = [] \<or> last a = CHR ''/'' then a @ b
      else a @ ''/'' @ b)"

section \<open>The host and the state of a run\<close>

text \<open>The JSON object that \<open>_write_result\<close> dumps.\<close>

record result_record =
  rec_image_id :: int
  rec_tags :: "string list"
  rec_error :: "string option"
  rec_request_id :: "string option"

datatype log_entry = Log string | Trace string | Warn string | Error string

text \<open>What a write to the disk meets: nothing, or an error before the temporary file
  exists (\<open>makedirs\<close>, \<open>open\<close>), or an error of \<open>os.replace\<close>.\<close>

datatype disk_fault = NoFault | OpenFails exn | ReplaceFails exn

text \<open>
  What a run changes: the files on the disk (a path and what the file holds), the host's
  log, the standard output, and the number of calls of \<open>_write_result\<close> so far.
\<close>

record state =
  files :: "string \<rightharpoonup> result_record"
  logged :: "log_entry list"
  stdout :: "string list"
  writes :: nat

text \<open>
  What a run reads and cannot change: the helper object \<open>stash\<close>, the environment
  variables, the answers of the host's queries, the outcome of reading the image and of
  calling the model, the faults of the disk (by the number of the write) and of the
  standard output, the JSON library, and Python's \<open>str()\<close> of a list or dictionary.
\<close>

record host =
  json_input :: jval
  task_name :: "string option"
  setting :: "string \<Rightarrow> exn + jval"
  environ :: "string \<Rightarrow> string option"
  script_dir :: string
  find_image :: "int \<Rightarrow> exn + jval"
  plugin_configuration :: "exn + jval"
  existing_tags :: "string list"
  read_image_bytes :: "string \<Rightarrow> exn + string \<times> string"
  call_llm :: "string \<Rightarrow> string \<Rightarrow> string list \<Rightarrow> exn + string"
  disk :: "nat \<Rightarrow> disk_fault"
  stdout_fault :: "exn option"
  json_lib :: "string \<Rightarrow> exn + json"
  container_str :: "jval \<Rightarrow> string"

definition emit :: "log_entry \<Rightarrow> state \<Rightarrow> state" where
  "emit entry st = st\<lparr>logged := logged st @ [entry]\<rparr>"

section \<open>Writing the result: \<open>_plugin_dir\<close> and \<open>_write_result\<close>\<close>

fun first_dir :: "jval \<Rightarrow> string list \<Rightarrow> string option" where
  "first_dir sc [] = None"
| "first_dir sc (key # keys) =
     (case get sc key of
        Inr (JStr val) \<Rightarrow> if val \<noteq> [] then Some val else first_dir sc keys
      | _ \<Rightarrow> first_dir sc keys)"

definition plugin_dir :: "host \<Rightarrow> exn + string" where
  "plugin_dir h =
     and_then (get (json_input h) ''server_connection'') (\<lambda>a.
     and_then (if truthy a then Inr a
               else and_then (get (json_input h) ''serverConnection'') (\<lambda>b.
                    Inr (or_else b (JObj [])))) (\<lambda>sc.
     Inr (case sc of
            JObj kvs \<Rightarrow>
              (case first_dir sc [''plugin_dir'', ''PluginDir'', ''pluginDir''] of
                 Some val \<Rightarrow> val
               | None \<Rightarrow> script_dir h)
          | _ \<Rightarrow> script_dir h)))"

text \<open>Line 446: \<open>re.sub(r"[^A-Za-z0-9_-]", "_", s)\<close>.\<close>

definition id_char :: "char \<Rightarrow> bool" where
  "id_char c = (ascii_upper c \<or> ascii_lower c \<or> ascii_digit c \<or> c = CHR ''_'' \<or> c = CHR ''-'')"

definition sanitize :: "string \<Rightarrow> string" where
  "sanitize s = map (\<lambda>c. if id_char c then c else CHR ''_'') s"

text \<open>Lines 444 to 446.\<close>

fun safe_request_id :: "jval \<Rightarrow> string option" where
  "safe_request_id (JStr r) = (if strip r \<noteq> [] then Some (sanitize (strip r)) else None)"
| "safe_request_id r = None"

text \<open>Line 453; the name of the file (line 455) is the image id, the suffix and \<open>.json\<close>.\<close>

definition suffix :: "string option \<Rightarrow> string" where
  "suffix safe = (case safe of Some s \<Rightarrow> if s \<noteq> [] then CHR ''_'' # s else [] | None \<Rightarrow> [])"

definition result_name :: "int \<Rightarrow> jval \<Rightarrow> string" where
  "result_name image_id request_id =
     str_int image_id @ suffix (safe_request_id request_id) @ ''.json''"

definition payload :: "int \<Rightarrow> string list \<Rightarrow> string option \<Rightarrow> jval \<Rightarrow> result_record" where
  "payload image_id tags err request_id =
     \<lparr>rec_image_id = image_id, rec_tags = tags, rec_error = err,
      rec_request_id = safe_request_id request_id\<rparr>"

text \<open>
  \<open>_write_result\<close>: the state after the call, and the exception if the call raised.
  The record goes to the temporary file first; \<open>os.replace\<close> then moves it to its final
  name.
\<close>

definition write_result ::
  "host \<Rightarrow> int \<Rightarrow> string list \<Rightarrow> string option \<Rightarrow> jval \<Rightarrow> state \<Rightarrow> exn option \<times> state" where
  "write_result h image_id tags err request_id st =
     (let st1 = st\<lparr>writes := writes st + 1\<rparr> in
      case plugin_dir h of
        Inl e \<Rightarrow> (Some e, st1)
      | Inr dir \<Rightarrow>
          (let results_dir = path_join dir ''results'';
               final_path = path_join results_dir (result_name image_id request_id);
               tmp_path = final_path @ ''.tmp'';
               record = payload image_id tags err request_id
           in case disk h (writes st) of
                OpenFails e \<Rightarrow> (Some e, st1)
              | ReplaceFails e \<Rightarrow> (Some e, st1\<lparr>files := (files st1)(tmp_path \<mapsto> record)\<rparr>)
              | NoFault \<Rightarrow>
                  (None, st1\<lparr>files := ((files st1)(tmp_path := None))(final_path \<mapsto> record)\<rparr>)))"

section \<open>The orchestrator: \<open>_fetch_image_path\<close> to \<open>tag_image_task\<close>\<close>

text \<open>
  The body of the \<open>try\<close> block of \<open>_fetch_image_path\<close> (lines 362 to 371), on the
  answer of the query: the value of \<open>path\<close> that is returned, which may be \<open>None\<close>.
\<close>

definition first_file_path :: "jval \<Rightarrow> jval \<Rightarrow> exn + jval" where
  "first_file_path img path =
     and_then (get img ''files'') (\<lambda>f.
       case or_else f (JArr []) of
         JArr (file # others) \<Rightarrow> get (or_else file (JObj [])) ''path''
       | _ \<Rightarrow> Inr path)"

definition image_path_of :: "jval \<Rightarrow> exn + jval" where
  "image_path_of resp =
     and_then (get_or (or_else resp (JObj [])) ''data'' (JObj [])) (\<lambda>d.
     and_then (get d ''findImage'') (\<lambda>f.
     let img = or_else f (JObj []) in
     and_then (get img ''paths'') (\<lambda>p.
     and_then (case or_else p (JObj []) of
                 JObj kvs \<Rightarrow> get (JObj kvs) ''image''
               | _ \<Rightarrow> Inr JNull) (\<lambda>path.
     if \<not> truthy path then first_file_path img path else Inr path))))"

definition fetch_image_path :: "host \<Rightarrow> int \<Rightarrow> state \<Rightarrow> jval \<times> state" where
  "fetch_image_path h image_id st =
     (case and_then (find_image h image_id) image_path_of of
        Inl e \<Rightarrow> (JNull, emit (Error ''[LLMImageTag] GraphQL path lookup failed'') st)
      | Inr path \<Rightarrow> (path, st))"

text \<open>
  The second \<open>try\<close> block of \<open>tags_from_image\<close> up to the reply of the model (lines 382
  to 384). \<open>_read_image_bytes\<close> calls \<open>path_or_url.startswith\<close>, which only a string
  has; reading the image and calling the model are the host's. \<open>_existing_tags\<close>
  catches every exception itself, so the first \<open>try\<close> block never takes its handler.
\<close>

definition model_reply :: "host \<Rightarrow> jval \<Rightarrow> exn + string" where
  "model_reply h path_or_url =
     (case path_or_url of
        JStr p \<Rightarrow>
          and_then (read_image_bytes h p) (\<lambda>(data, mime).
            call_llm h data mime (existing_tags h))
      | other \<Rightarrow>
          Inl (Exn ''AttributeError'' (type_name other @ '' object has no attribute startswith'')))"

text \<open>
  The whole second \<open>try\<close> block (lines 382 to 388): the reply, then
  \<open>_strip_think_blocks\<close> and \<open>_parse_tags\<close>.
\<close>

definition tagging :: "host \<Rightarrow> jval \<Rightarrow> exn + string list" where
  "tagging h path_or_url =
     and_then (model_reply h path_or_url) (\<lambda>content. Inr (normalize (json_lib h) content))"

definition tags_from_image :: "host \<Rightarrow> jval \<Rightarrow> state \<Rightarrow> string list \<times> state" where
  "tags_from_image h path_or_url st =
     (case tagging h path_or_url of
        Inl e \<Rightarrow> ([], emit (Error ''[LLMImageTag] Tagging failed'') st)
      | Inr tags \<Rightarrow> (tags, emit (Trace ''[LLMImageTag] LLM raw output'') st))"

definition tag_image :: "host \<Rightarrow> int \<Rightarrow> state \<Rightarrow> string list option \<times> state" where
  "tag_image h image_id st =
     (let (path, st1) = fetch_image_path h image_id st in
      if \<not> truthy path then (None, emit (Error ''[LLMImageTag] No image path found'') st1)
      else (let (tags, st2) = tags_from_image h path st1 in
            (Some tags,
             emit (if tags = [] then Warn ''[LLMImageTag] No tags returned''
                   else Log ''[LLMImageTag] Suggested tags'') st2)))"

text \<open>
  \<open>stash.JSON_INPUT.get("args", {}).get(k) if stash.JSON_INPUT else None\<close> (lines 409,
  410, 425 and 427).
\<close>

definition arg :: "host \<Rightarrow> string \<Rightarrow> exn + jval" where
  "arg h k =
     (if truthy (json_input h)
      then and_then (get_or (json_input h) ''args'' (JObj [])) (\<lambda>a. get a k)
      else Inr JNull)"

text \<open>
  \<open>int(x)\<close> and \<open>float(x)\<close>. Around a numeral both skip the white space U+0009 to
  U+000D, U+0020, U+0085 and U+00A0; the digits of a numeral may be grouped by single
  underscores. (The limit that newer versions of Python put on the number of digits is
  left out.)
\<close>

definition num_space :: "char \<Rightarrow> bool" where
  "num_space c = ((9 \<le> code c \<and> code c \<le> 13) \<or> code c = 32 \<or> code c = 133 \<or> code c = 160)"

fun digitpart :: "string \<Rightarrow> bool" where
  "digitpart [] = False"
| "digitpart [c] = ascii_digit c"
| "digitpart (c # d # cs) =
     (ascii_digit c \<and> (if d = CHR ''_'' then digitpart cs else digitpart (d # cs)))"

definition unsigned :: "string \<Rightarrow> string" where
  "unsigned s = (case s of [] \<Rightarrow> [] | c # cs \<Rightarrow> if c = CHR ''+'' \<or> c = CHR ''-'' then cs else s)"

definition digits_value :: "string \<Rightarrow> int" where
  "digits_value s = foldl (\<lambda>a c. if c = CHR ''_'' then a else 10 * a + (int (code c) - 48)) 0 s"

definition int_literal :: "string \<Rightarrow> int option" where
  "int_literal s =
     (let t = strip_where num_space s in
      if digitpart (unsigned t)
      then Some (if hd t = CHR ''-'' then - digits_value (unsigned t) else digits_value (unsigned t))
      else None)"

definition mantissa :: "string \<Rightarrow> bool" where
  "mantissa m =
     (if CHR ''.'' \<in> set m
      then (let a = takeWhile (\<lambda>c. c \<noteq> CHR ''.'') m;
                b = tl (dropWhile (\<lambda>c. c \<noteq> CHR ''.'') m)
            in (a = [] \<or> digitpart a) \<and> (b = [] \<or> digitpart b) \<and> \<not> (a = [] \<and> b = []))
      else digitpart m)"

definition decimal :: "string \<Rightarrow> bool" where
  "decimal t =
     (if CHR ''e'' \<in> set t \<or> CHR ''E'' \<in> set t
      then mantissa (takeWhile (\<lambda>c. c \<noteq> CHR ''e'' \<and> c \<noteq> CHR ''E'') t)
        \<and> digitpart (unsigned (tl (dropWhile (\<lambda>c. c \<noteq> CHR ''e'' \<and> c \<noteq> CHR ''E'') t)))
      else mantissa t)"

definition float_literal :: "string \<Rightarrow> bool" where
  "float_literal s =
     (let t = unsigned (strip_where num_space s) in
      lower t = ''inf'' \<or> lower t = ''infinity'' \<or> lower t = ''nan'' \<or> decimal t)"

fun py_int :: "jval \<Rightarrow> exn + int" where
  "py_int (JInt n) = Inr n"
| "py_int (JBool b) = Inr (if b then 1 else 0)"
| "py_int (JFloat n r) = Inr n"
| "py_int (JStr s) =
     (case int_literal s of
        Some n \<Rightarrow> Inr n
      | None \<Rightarrow> Inl (Exn ''ValueError'' (''invalid literal for int() with base 10: '' @ s)))"
| "py_int v = Inl (Exn ''TypeError'' (''int() argument must be a string or a real number, not ''
     @ type_name v))"

text \<open>
  The \<open>try\<close> block of \<open>tag_image_task\<close> (lines 409 to 420): the state it leaves, and
  the exception if it raised.
\<close>

definition task_body :: "host \<Rightarrow> state \<Rightarrow> exn option \<times> state" where
  "task_body h st =
     (case arg h ''image_id'' of
        Inl e \<Rightarrow> (Some e, st)
      | Inr image_id \<Rightarrow>
     (case arg h ''request_id'' of
        Inl e \<Rightarrow> (Some e, st)
      | Inr request_id \<Rightarrow>
     if image_id = JNull
     then (None, emit (Error ''[LLMImageTag] No image_id supplied to tag_image_task'') st)
     else (case py_int image_id of
        Inl e \<Rightarrow> (Some e, st)
      | Inr n \<Rightarrow>
          (let (tags, st1) = tag_image h n st in
           case tags of
             None \<Rightarrow> write_result h n [] (Some ''No image path found.'') request_id st1
           | Some ts \<Rightarrow> write_result h n ts None request_id st1))))"

text \<open>
  The handler (lines 422 to 430), for the exception \<open>e\<close>: it logs, and tries to write a
  record with the message of \<open>e\<close>; whatever that attempt raises is dropped.
\<close>

definition task_handler :: "host \<Rightarrow> exn \<Rightarrow> state \<Rightarrow> state" where
  "task_handler h e st =
     (let st1 = emit (Error ''[LLMImageTag] Exception in tag_image_task'') st in
      case arg h ''image_id'' of
        Inl e1 \<Rightarrow> st1
      | Inr image_id \<Rightarrow>
          if image_id = JNull then st1
          else (case arg h ''request_id'' of
             Inl e2 \<Rightarrow> st1
           | Inr request_id \<Rightarrow>
               (case py_int image_id of
                  Inl e3 \<Rightarrow> st1
                | Inr n \<Rightarrow>
                    (case e of Exn cls msg \<Rightarrow>
                       snd (write_result h n [] (Some msg) request_id st1)))))"

text \<open>
  \<open>tag_image_task\<close>: the state it leaves, and the exception that reaches its caller, if
  any.
\<close>

definition tag_image_task :: "host \<Rightarrow> state \<Rightarrow> exn option \<times> state" where
  "tag_image_task h st =
     (case task_body h st of
        (None, st1) \<Rightarrow> (None, st1)
      | (Some e, st1) \<Rightarrow> (None, task_handler h e st1))"

section \<open>Configuration: \<open>_resolve_base_url\<close> and \<open>_env_or_setting\<close>\<close>

definition DEFAULT_BASE_URL :: string where
  "DEFAULT_BASE_URL = ''http://localhost:11434/v1''"

definition DEFAULT_MODEL :: string where
  "DEFAULT_MODEL = ''gemma3:4b-it-q8_0''"

text \<open>The defaults 0.7, -1 and 3600.0.\<close>

definition DEFAULT_TEMP :: jval where
  "DEFAULT_TEMP = JFloat 0 ''0.7''"

definition DEFAULT_MAX_TOKENS :: jval where
  "DEFAULT_MAX_TOKENS = JInt (- 1)"

definition DEFAULT_TIMEOUT :: jval where
  "DEFAULT_TIMEOUT = JFloat 3600 ''3600.0''"

text \<open>
  The test that every source of the base URL passes through,
  \<open>isinstance(x, str) and x.strip()\<close>, and the value returned when it holds,
  \<open>x.strip().rstrip("/")\<close>.
\<close>

fun accepted :: "jval \<Rightarrow> string option" where
  "accepted (JStr x) = (if strip x \<noteq> [] then Some (rstrip_char (CHR ''/'') (strip x)) else None)"
| "accepted x = None"

text \<open>Source 1 (line 110): the argument \<open>llmBaseUrl\<close> of the invocation.\<close>

definition arg_url :: "host \<Rightarrow> exn + jval" where
  "arg_url h =
     (case json_input h of
        JObj kvs \<Rightarrow>
          and_then (get (or_else (json_input h) (JObj [])) ''args'') (\<lambda>a.
            get (or_else a (JObj [])) ''llmBaseUrl'')
      | _ \<Rightarrow> Inr JNull)"

text \<open>
  Source 3 (lines 125 to 144): the setting in a raw payload, which is a dictionary or a
  list of \<open>{key, value}\<close> items; \<open>raw_url\<close> is the value before the payload is read.
\<close>

fun item_value :: "jval list \<Rightarrow> jval option" where
  "item_value [] = None"
| "item_value (item # items) =
     (case item of
        JObj kvs \<Rightarrow>
          if map_of kvs ''key'' = Some (JStr ''llmBaseUrl'')
          then Some (case map_of kvs ''value'' of None \<Rightarrow> JNull | Some v \<Rightarrow> v)
          else item_value items
      | _ \<Rightarrow> item_value items)"

definition from_payload :: "jval \<Rightarrow> jval \<Rightarrow> jval" where
  "from_payload src raw_url =
     (case src of
        JObj kvs \<Rightarrow> (case map_of kvs ''llmBaseUrl'' of None \<Rightarrow> JNull | Some v \<Rightarrow> v)
      | JArr items \<Rightarrow> (case item_value items of None \<Rightarrow> raw_url | Some v \<Rightarrow> v)
      | _ \<Rightarrow> raw_url)"

definition raw_url :: "host \<Rightarrow> jval" where
  "raw_url h =
     (case json_input h of
        JObj kvs \<Rightarrow>
          (let settings_src = or_else (case map_of kvs ''settings'' of None \<Rightarrow> JNull | Some v \<Rightarrow> v)
                 (JObj []);
               url = from_payload settings_src JNull
           in if \<not> truthy url
              then from_payload
                (or_else (case map_of kvs ''pluginSettings'' of None \<Rightarrow> JNull | Some v \<Rightarrow> v)
                   (JObj [])) url
              else url)
      | _ \<Rightarrow> JNull)"

text \<open>
  Source 4: \<open>_fetch_llm_base_url_from_settings\<close> (lines 68 to 95), on the answer of the
  configuration query.
\<close>

fun saved_url :: "jval \<Rightarrow> string list \<Rightarrow> exn + jval" where
  "saved_url plugins_map [] = Inr JNull"
| "saved_url plugins_map (pid # pids) =
     and_then (get plugins_map pid) (\<lambda>settings_map.
       case settings_map of
         JObj kvs \<Rightarrow>
           (case map_of kvs ''llmBaseUrl'' of
              Some (JStr v) \<Rightarrow> if strip v \<noteq> [] then Inr (JStr (strip v))
                               else saved_url plugins_map pids
            | _ \<Rightarrow> saved_url plugins_map pids)
       | _ \<Rightarrow> saved_url plugins_map pids)"

definition fetched_of :: "jval \<Rightarrow> exn + jval" where
  "fetched_of resp =
     (case resp of
        JObj kvs \<Rightarrow>
          and_then (get resp ''data'') (\<lambda>d.
          and_then (get (or_else d (JObj [])) ''configuration'') (\<lambda>c.
          and_then (get (or_else c (JObj [])) ''plugins'') (\<lambda>p.
          case or_else p (JObj []) of
            JObj m \<Rightarrow> saved_url (JObj m) [''llm_image_tag'', ''LLMImageTag'']
          | _ \<Rightarrow> Inr JNull)))
      | _ \<Rightarrow> Inr JNull)"

definition fetch_llm_base_url_from_settings :: "host \<Rightarrow> jval" where
  "fetch_llm_base_url_from_settings h =
     (case and_then (plugin_configuration h) fetched_of of Inl e \<Rightarrow> JNull | Inr v \<Rightarrow> v)"

text \<open>
  The six sources in their order, each as the value it offers (\<open>JNull\<close> when it has
  none or when reading it raised, since every \<open>try\<close> block passes on).
\<close>

definition sources :: "host \<Rightarrow> jval list" where
  "sources h =
     [case arg_url h of Inl e \<Rightarrow> JNull | Inr v \<Rightarrow> v,
      case setting h ''llmBaseUrl'' of Inl e \<Rightarrow> JNull | Inr v \<Rightarrow> v,
      raw_url h,
      fetch_llm_base_url_from_settings h,
      case environ h ''LLM_BASE_URL'' of None \<Rightarrow> JNull | Some s \<Rightarrow> JStr s]"

fun first_accepted :: "jval list \<Rightarrow> string option" where
  "first_accepted [] = None"
| "first_accepted (v # vs) =
     (case accepted v of Some url \<Rightarrow> Some url | None \<Rightarrow> first_accepted vs)"

definition resolve_base_url :: "host \<Rightarrow> string" where
  "resolve_base_url h =
     (case first_accepted (sources h) of
        Some url \<Rightarrow> url
      | None \<Rightarrow> rstrip_char (CHR ''/'') DEFAULT_BASE_URL)"

text \<open>\<open>_env_or_setting\<close> (lines 166 to 172); \<open>stash.Setting\<close> is called outside any
  \<open>try\<close> block here.\<close>

definition blank :: "jval \<Rightarrow> bool" where
  "blank v = (case v of JStr s \<Rightarrow> strip s = [] | _ \<Rightarrow> False)"

definition env_or_setting :: "host \<Rightarrow> string \<Rightarrow> string \<Rightarrow> jval \<Rightarrow> exn + jval" where
  "env_or_setting h name env dflt =
     and_then (setting h name) (\<lambda>v0.
       let v = (if v0 = JNull
                then (case environ h env of None \<Rightarrow> JNull | Some s \<Rightarrow> JStr s)
                else v0)
       in Inr (if v = JNull \<or> blank v then dflt else v))"

text \<open>\<open>float(x)\<close>: nothing computes with the result, which is kept as the value that was
  converted.\<close>

datatype pyfloat = FloatOf jval

fun py_float :: "jval \<Rightarrow> exn + pyfloat" where
  "py_float (JStr s) =
     (if float_literal s then Inr (FloatOf (JStr s))
      else Inl (Exn ''ValueError'' (''could not convert string to float: '' @ s)))"
| "py_float (JInt n) =
     (if \<bar>n\<bar> < 2 ^ 1024 - 2 ^ 970 then Inr (FloatOf (JInt n))
      else Inl (Exn ''OverflowError'' ''int too large to convert to float''))"
| "py_float (JBool b) = Inr (FloatOf (JBool b))"
| "py_float (JFloat n r) = Inr (FloatOf (JFloat n r))"
| "py_float v = Inl (Exn ''TypeError'' (''float() argument must be a string or a real number, not ''
     @ type_name v))"

text \<open>\<open>str(x)\<close> of a setting.\<close>

fun str_of :: "host \<Rightarrow> jval \<Rightarrow> string" where
  "str_of h (JStr s) = s"
| "str_of h (JInt n) = str_int n"
| "str_of h (JFloat n r) = r"
| "str_of h (JBool b) = (if b then ''True'' else ''False'')"
| "str_of h JNull = ''None''"
| "str_of h v = container_str h v"

record config =
  BASE_URL :: string
  MODEL :: string
  TEMP :: pyfloat
  MAX_TOKENS :: int
  TIMEOUT :: pyfloat

text \<open>
  Lines 174 to 178, run when the module is loaded, outside any \<open>try\<close> block. (The
  API key and the prompt of lines 179 and 180 are environment variables read as they
  are.)
\<close>

definition load_config :: "host \<Rightarrow> exn + config" where
  "load_config h =
     (let base_url = resolve_base_url h in
      and_then (env_or_setting h ''llmModel'' ''LLM_MODEL'' (JStr DEFAULT_MODEL)) (\<lambda>m.
      and_then (and_then (env_or_setting h ''llmTemp'' ''LLM_TEMP'' DEFAULT_TEMP) py_float) (\<lambda>t.
      and_then (and_then (env_or_setting h ''llmMaxTokens'' ''LLM_MAX_TOKENS'' DEFAULT_MAX_TOKENS)
                  py_int) (\<lambda>k.
      and_then (and_then (env_or_setting h ''llmTimeout'' ''LLM_TIMEOUT'' DEFAULT_TIMEOUT)
                  py_float) (\<lambda>w.
      Inr \<lparr>BASE_URL = base_url, MODEL = str_of h m, TEMP = t, MAX_TOKENS = k,
           TIMEOUT = w\<rparr>)))))"

section \<open>The entry point\<close>

text \<open>
  How the process ends: the state it leaves and its exit status. The interpreter ends a
  script that raised with the status 1, and one that ran to its end with the status 0;
  when the standard output cannot be written, the flush at the exit of the interpreter
  fails as well and the status is 120.
\<close>

record outcome =
  final :: state
  exit_status :: nat

text \<open>The \<open>try\<close> block of the entry point (lines 464 to 473).\<close>

definition dispatch :: "host \<Rightarrow> state \<Rightarrow> exn option \<times> state" where
  "dispatch h st =
     (case setting h ''zzdebugTracing'' of
        Inl e \<Rightarrow> (Some e, st)
      | Inr tracing \<Rightarrow>
          (let st1 = (if truthy tracing then emit (Log ''[LLMImageTag] Using BASE_URL'') st else st) in
           if task_name h = Some ''tag_image_task''
           then tag_image_task h (emit (Trace ''PLUGIN_TASK_NAME=tag_image_task'') st1)
           else if \<not> truthy (json_input h)
           then (None, emit (Trace ''[LLMImageTag] No task specified'') st1)
           else (case and_then (get_or (json_input h) ''args'' (JObj [])) (\<lambda>a. get a ''mode'') of
              Inl e \<Rightarrow> (Some e, st1)
            | Inr mode \<Rightarrow>
                if mode = JStr ''tag_image_task''
                then tag_image_task h (emit (Trace ''Dispatch via args.mode=tag_image_task'') st1)
                else (None, emit (Trace ''[LLMImageTag] No task specified'') st1))))"

text \<open>Lines 479 to 482: \<open>print("null")\<close>, with whatever it raises dropped.\<close>

definition print_null :: "host \<Rightarrow> state \<Rightarrow> state" where
  "print_null h st =
     (case stdout_fault h of None \<Rightarrow> st\<lparr>stdout := stdout st @ [''null'']\<rparr> | Some e \<Rightarrow> st)"

text \<open>The module from line 174 to its end.\<close>

definition run_plugin :: "host \<Rightarrow> state \<Rightarrow> outcome" where
  "run_plugin h st =
     (case load_config h of
        Inl e \<Rightarrow> \<lparr>final = st, exit_status = 1\<rparr>
      | Inr cfg \<Rightarrow>
          (let st1 = (case dispatch h st of
                        (None, st') \<Rightarrow> st'
                      | (Some e, st') \<Rightarrow>
                          emit (Error ''[LLMImageTag] Exception while running plugin'') st')
           in \<lparr>final = print_null h st1,
               exit_status = (case stdout_fault h of None \<Rightarrow> 0 | Some e \<Rightarrow> 120)\<rparr>))"

text \<open>A host and a state for closed examples: image 5 is asked for, with the request id
  \<open>r-1\<close>; the host knows the image; reading it fails.\<close>

definition example_host :: host where
  "example_host =
     \<lparr>json_input = JObj [(''args'', JObj [(''image_id'', JInt 5), (''request_id'', JStr ''r-1'')]),
         (''server_connection'', JObj [(''plugin_dir'', JStr ''/plugins/llm_image_tag'')])],
      task_name = Some ''tag_image_task'',
      setting = (\<lambda>name. Inr JNull),
      environ = (\<lambda>name. None),
      script_dir = ''/plugins/llm_image_tag'',
      find_image = (\<lambda>image_id. Inr (JObj [(''data'', JObj [(''findImage'',
         JObj [(''paths'', JObj [(''image'', JStr ''http://localhost:9999/image/5/image'')])])])])),
      plugin_configuration = Inr JNull,
      existing_tags = [],
      read_image_bytes = (\<lambda>p. Inl (Exn ''RuntimeError'' ''HTTP GET failed'')),
      call_llm = (\<lambda>data mime existing. Inr ''[\"cat\"]''),
      disk = (\<lambda>n. NoFault),
      stdout_fault = None,
      json_lib = rejecting,
      container_str = (\<lambda>v. [])\<rparr>"

definition empty_state :: state where
  "empty_state = \<lparr>files = Map.empty, logged = [], stdout = [], writes = 0\<rparr>"

section \<open>Properties\<close>

lemma split_not_Nil: "split sep s \<noteq> []"
  by (induction s) (auto split: list.splits)

subsection \<open>The fallback split on a reply in prose\<close>

text \<open>
  Claim C2, as amended. The reply \<open>"Sure! Here are some tags: beach, sunset, #ocean "\<close>
  has no bracket, so it is split at its commas. The first piece is the whole of
  \<open>"Sure! Here are some tags: beach"\<close>: cleaning lowers it and drops the exclamation
  mark and the colon, and at 29 characters it is kept. The result is the sequence
  \<open>["sure here are some tags beach", "sunset", "ocean"]\<close>, whatever the JSON library does.
\<close>

theorem C2_prose_reply:
  "normalize lib ''Sure! Here are some tags: beach, sunset, #ocean ''
     = [''sure here are some tags beach'', ''sunset'', ''ocean'']
   \<and> parse_tags lib ''Sure! Here are some tags: beach, sunset, #ocean ''
     = [''sure here are some tags beach'', ''sunset'', ''ocean'']"
  by code_simp

theorem C2_prose_reply_witness:
  "normalize rejecting ''Sure! Here are some tags: beach, sunset, #ocean ''
     = [''sure here are some tags beach'', ''sunset'', ''ocean'']
   \<and> parse_tags rejecting ''Sure! Here are some tags: beach, sunset, #ocean ''
     = [''sure here are some tags beach'', ''sunset'', ''ocean'']"
  using C2_prose_reply [of rejecting] .

text \<open>The sequence \<open>["beach", "sunset", "ocean"]\<close> is not what the code returns.\<close>

theorem C2_prose_reply_counterexample:
  "normalize rejecting ''Sure! Here are some tags: beach, sunset, #ocean ''
     \<noteq> [''beach'', ''sunset'', ''ocean'']"
  by code_simp

subsection \<open>The loop that removes duplicates\<close>

lemma upt_0_Suc: "[0..<Suc n] = 0 # map Suc [0..<n]"
  by (simp add: upt_conv_Cons map_Suc_upt del: upt_Suc)

text \<open>
  Position \<open>i\<close> of the input reaches the output exactly when its string is not empty,
  was not seen before the loop and does not stand at an earlier position.
\<close>

lemma uniq_loop_index:
  "uniq_loop ts seen acc =
     acc @ map ((!) ts)
       (filter (\<lambda>i. ts ! i \<noteq> [] \<and> ts ! i \<notin> seen \<and> ts ! i \<notin> set (take i ts))
          [0..<length ts])"
proof (induction ts arbitrary: seen acc)
  case Nil
  then show ?case by simp
next
  case (Cons t ts)
  let ?P = "\<lambda>i. (t # ts) ! i \<noteq> [] \<and> (t # ts) ! i \<notin> seen
    \<and> (t # ts) ! i \<notin> set (take i (t # ts))"
  show ?case
  proof (cases "t \<noteq> [] \<and> t \<notin> seen")
    case True
    let ?Q = "\<lambda>i. ts ! i \<noteq> [] \<and> ts ! i \<notin> insert t seen \<and> ts ! i \<notin> set (take i ts)"
    have F: "filter ?P [0..<length (t # ts)] = 0 # map Suc (filter ?Q [0..<length ts])"
      using True
      by (auto simp: upt_0_Suc filter_map comp_def simp del: upt_Suc intro!: filter_cong)
    have "uniq_loop (t # ts) seen acc = uniq_loop ts (insert t seen) (acc @ [t])"
      using True by simp
    also have "\<dots> = (acc @ [t]) @ map ((!) ts) (filter ?Q [0..<length ts])"
      by (rule Cons.IH)
    also have "\<dots> = acc @ map ((!) (t # ts)) (0 # map Suc (filter ?Q [0..<length ts]))"
      by (simp add: comp_def)
    finally show ?thesis
      by (simp only: F)
  next
    case False
    let ?Q = "\<lambda>i. ts ! i \<noteq> [] \<and> ts ! i \<notin> seen \<and> ts ! i \<notin> set (take i ts)"
    have F: "filter ?P [0..<length (t # ts)] = map Suc (filter ?Q [0..<length ts])"
      using False
      by (auto simp: upt_0_Suc filter_map comp_def simp del: upt_Suc intro!: filter_cong)
    have "uniq_loop (t # ts) seen acc = uniq_loop ts seen acc"
      using False by auto
    also have "\<dots> = acc @ map ((!) ts) (filter ?Q [0..<length ts])"
      by (rule Cons.IH)
    also have "\<dots> = acc @ map ((!) (t # ts)) (map Suc (filter ?Q [0..<length ts]))"
      by (simp add: comp_def)
    finally show ?thesis
      by (simp only: F)
  qed
qed

lemma uniq_loop_distinct:
  "distinct acc \<Longrightarrow> set acc \<subseteq> seen \<Longrightarrow> distinct (uniq_loop ts seen acc)"
proof (induction ts arbitrary: seen acc)
  case Nil
  then show ?case by simp
next
  case (Cons t ts)
  show ?case
  proof (cases "t \<noteq> [] \<and> t \<notin> seen")
    case True
    have "distinct (acc @ [t])" and "set (acc @ [t]) \<subseteq> insert t seen"
      using True Cons.prems by auto
    then have "distinct (uniq_loop ts (insert t seen) (acc @ [t]))"
      by (rule Cons.IH)
    then show ?thesis using True by simp
  next
    case False
    then show ?thesis using Cons.IH [OF Cons.prems] by auto
  qed
qed

lemma uniq_loop_set:
  "set (uniq_loop ts seen acc) = set acc \<union> {t \<in> set ts. t \<noteq> [] \<and> t \<notin> seen}"
  by (induction ts arbitrary: seen acc) auto

lemma cleaned_set:
  "set (cleaned ts)
     = {clean t | t. t \<in> set ts \<and> 1 \<le> length (clean t) \<and> length (clean t) \<le> 50}"
  by (induction ts) auto

lemma cleaned_not_Nil: "t \<in> set (cleaned ts) \<Longrightarrow> t \<noteq> []"
  by (auto simp: cleaned_set)

text \<open>
  Claim C8. The reply \<open>["cat", "outdoor", "CAT"]\<close> gives \<open>["cat", "outdoor"]\<close>. In
  general the result has no string twice, and it is the list of cleaned candidates with
  every position dropped whose string already stands at an earlier position: strings are
  compared after cleaning, by equality; the first occurrence stays, in its place.
\<close>

theorem C8_first_occurrence_wins:
  "normalize lib ''[\"cat\", \"outdoor\", \"CAT\"]'' = [''cat'', ''outdoor'']
   \<and> distinct (parse_tags lib text)
   \<and> parse_tags lib text =
       (let xs = cleaned (candidates lib text)
        in map ((!) xs) (filter (\<lambda>i. xs ! i \<notin> set (take i xs)) [0..<length xs]))"
proof (intro conjI)
  show "normalize lib ''[\"cat\", \"outdoor\", \"CAT\"]'' = [''cat'', ''outdoor'']"
    by code_simp
  show "distinct (parse_tags lib text)"
    unfolding parse_tags_def by (rule uniq_loop_distinct) simp_all
  let ?xs = "cleaned (candidates lib text)"
  have "filter (\<lambda>i. ?xs ! i \<noteq> [] \<and> ?xs ! i \<notin> {} \<and> ?xs ! i \<notin> set (take i ?xs)) [0..<length ?xs]
      = filter (\<lambda>i. ?xs ! i \<notin> set (take i ?xs)) [0..<length ?xs]"
    by (rule filter_cong) (auto dest!: nth_mem cleaned_not_Nil simp del: upt_Suc)
  then show "parse_tags lib text =
       (let xs = ?xs
        in map ((!) xs) (filter (\<lambda>i. xs ! i \<notin> set (take i xs)) [0..<length xs]))"
    unfolding parse_tags_def Let_def by (simp add: uniq_loop_index del: upt_Suc)
qed

theorem C8_first_occurrence_wins_witness:
  "normalize rejecting ''[\"cat\", \"outdoor\", \"CAT\"]'' = [''cat'', ''outdoor'']
   \<and> distinct (parse_tags rejecting ''b, a, B, c, A'')
   \<and> parse_tags rejecting ''b, a, B, c, A'' = [''b'', ''a'', ''c'']"
proof -
  have "parse_tags rejecting ''b, a, B, c, A'' = [''b'', ''a'', ''c'']"
    by code_simp
  then show ?thesis
    using C8_first_occurrence_wins [of rejecting "''b, a, B, c, A''"] by simp
qed

subsection \<open>The reasoning blocks\<close>

lemma lower_length: "length (lower s) = length s"
  by (simp add: lower_def)

lemma after_close_found:
  assumes "lower cls = ''</think>''"
    and "\<forall>i<length body. \<not> ci_prefix ''</think>'' (drop i (body @ cls @ post))"
  shows "after_close (body @ cls @ post) = Some post"
  using assms(2)
proof (induction body)
  case Nil
  have len: "length cls = 8"
    using lower_length [of cls] assms(1) by simp
  then obtain c cs where cls: "cls = c # cs"
    by (cases cls) auto
  have "ci_prefix ''</think>'' (cls @ post)"
    using len assms(1) by (simp add: ci_prefix_def)
  then show ?case
    using len cls by simp
next
  case (Cons b body)
  have head: "\<not> ci_prefix ''</think>'' ((b # body) @ cls @ post)"
    using Cons.prems by (metis drop0 length_greater_0_conv list.distinct(1))
  have "\<forall>i<length body. \<not> ci_prefix ''</think>'' (drop i (body @ cls @ post))"
  proof (intro allI impI)
    fix i assume "i < length body"
    then have "\<not> ci_prefix ''</think>'' (drop (Suc i) ((b # body) @ cls @ post))"
      using Cons.prems by (metis Suc_less_eq length_Cons)
    then show "\<not> ci_prefix ''</think>'' (drop i (body @ cls @ post))"
      by simp
  qed
  then have "after_close (body @ cls @ post) = Some post"
    by (rule Cons.IH)
  then show ?case
    using head by simp
qed

lemma strip_think_blocks_block:
  assumes "lower opn = ''<think>''" and "lower cls = ''</think>''"
    and "\<forall>i<length pre. \<not> ci_prefix ''<think>'' (drop i (pre @ opn @ body @ cls @ post))"
    and "\<forall>i<length body. \<not> ci_prefix ''</think>'' (drop i (body @ cls @ post))"
  shows "strip_think_blocks (pre @ opn @ body @ cls @ post) = pre @ strip_think_blocks post"
  using assms(3)
proof (induction pre)
  case Nil
  have len: "length opn = 7"
    using lower_length [of opn] assms(1) by simp
  then obtain c cs where opn: "opn = c # cs"
    by (cases opn) auto
  have "ci_prefix ''<think>'' (opn @ body @ cls @ post)"
    using len assms(1) by (simp add: ci_prefix_def)
  moreover have "after_close (drop 7 (opn @ body @ cls @ post)) = Some post"
    using len after_close_found [OF assms(2) assms(4)] by simp
  ultimately show ?case
    using opn by simp
next
  case (Cons b pre)
  have head: "\<not> ci_prefix ''<think>'' ((b # pre) @ opn @ body @ cls @ post)"
    using Cons.prems by (metis drop0 length_greater_0_conv list.distinct(1))
  have "\<forall>i<length pre. \<not> ci_prefix ''<think>'' (drop i (pre @ opn @ body @ cls @ post))"
  proof (intro allI impI)
    fix i assume "i < length pre"
    then have "\<not> ci_prefix ''<think>'' (drop (Suc i) ((b # pre) @ opn @ body @ cls @ post))"
      using Cons.prems by (metis Suc_less_eq length_Cons)
    then show "\<not> ci_prefix ''<think>'' (drop i (pre @ opn @ body @ cls @ post))"
      by simp
  qed
  then have "strip_think_blocks (pre @ opn @ body @ cls @ post) = pre @ strip_think_blocks post"
    by (rule Cons.IH)
  then show ?case
    using head by simp
qed

text \<open>
  Claim C9. Tags are extracted from the text that \<open>_strip_think_blocks\<close> returns. Let a
  text be \<open>pre\<close>, an opening tag \<open><think>\<close> in any mix of upper and lower case, a body
  of any characters (newlines too), a closing tag \<open></think>\<close> in any mix of cases, and
  \<open>post\<close>, where no opening tag starts inside \<open>pre\<close> and no closing tag starts inside
  the body. Then the tags and the body are removed, \<open>pre\<close> is kept, and the blocks of
  \<open>post\<close> are removed in the same way. In particular the reply
  \<open><think>hmm</think>["indoor"]\<close> gives \<open>["indoor"]\<close>.
\<close>

theorem C9_think_blocks_removed:
  "normalize lib content = parse_tags lib (strip_think_blocks content)
   \<and> (lower opn = ''<think>'' \<longrightarrow> lower cls = ''</think>''
        \<longrightarrow> (\<forall>i<length pre. \<not> ci_prefix ''<think>'' (drop i (pre @ opn @ body @ cls @ post)))
        \<longrightarrow> (\<forall>i<length body. \<not> ci_prefix ''</think>'' (drop i (body @ cls @ post)))
        \<longrightarrow> strip_think_blocks (pre @ opn @ body @ cls @ post) = pre @ strip_think_blocks post)
   \<and> normalize lib ''<think>hmm</think>[\"indoor\"]'' = [''indoor'']"
proof (intro conjI impI)
  show "normalize lib content = parse_tags lib (strip_think_blocks content)"
    by (simp add: normalize_def)
  show "normalize lib ''<think>hmm</think>[\"indoor\"]'' = [''indoor'']"
    by code_simp
qed (rule strip_think_blocks_block)

theorem C9_think_blocks_removed_witness:
  "strip_think_blocks
       (''ok '' @ ''<THINK>'' @ [CHR ''a'', CHR 0x0A, CHR ''b''] @ ''</Think>'' @ ''[\"x\"]'')
     = ''ok '' @ strip_think_blocks ''[\"x\"]''
   \<and> normalize rejecting ''<think>hmm</think>[\"indoor\"]'' = [''indoor'']"
proof -
  have a: "lower ''<THINK>'' = ''<think>''" and b: "lower ''</Think>'' = ''</think>''"
    by code_simp+
  have c: "\<forall>i<length ''ok ''. \<not> ci_prefix ''<think>''
      (drop i (''ok '' @ ''<THINK>'' @ [CHR ''a'', CHR 0x0A, CHR ''b''] @ ''</Think>'' @ ''[\"x\"]''))"
    by (simp add: All_less_Suc ci_prefix_def lower_def lower_char_def ascii_upper_def code_def)
  have d: "\<forall>i<length [CHR ''a'', CHR 0x0A, CHR ''b'']. \<not> ci_prefix ''</think>''
      (drop i ([CHR ''a'', CHR 0x0A, CHR ''b''] @ ''</Think>'' @ ''[\"x\"]''))"
    by (simp add: All_less_Suc ci_prefix_def lower_def lower_char_def ascii_upper_def code_def)
  note inst = C9_think_blocks_removed [of rejecting "[]" "''<THINK>''" "''</Think>''" "''ok ''"
      "[CHR ''a'', CHR 0x0A, CHR ''b'']" "''[\"x\"]''"]
  from inst a b c d show ?thesis
    by blast
qed

subsection \<open>The characters and the length of a tag\<close>

lemma lower_char_not_upper: "\<not> ascii_upper (lower_char c)"
  by (auto simp: lower_char_def ascii_upper_def code_def)

lemma clean_chars: "c \<in> set (clean t) \<Longrightarrow> kept_char c \<and> \<not> ascii_upper c"
  by (auto simp: clean_def lower_def lower_char_not_upper)

lemma ascii_kept_char:
  assumes "kept_char c" and "\<not> ascii_upper c" and "code c < 128"
  shows "tag_char c"
  using assms
  by (auto simp: kept_char_def tag_char_def isalnum_def)

lemma parse_tags_clean:
  assumes "t \<in> set (parse_tags lib text)"
  shows "\<exists>u. t = clean u \<and> 1 \<le> length t \<and> length t \<le> 50"
proof -
  have "t \<in> set (cleaned (candidates lib text))"
    using assms by (auto simp: parse_tags_def uniq_loop_set)
  then show ?thesis
    by (auto simp: cleaned_set)
qed

text \<open>
  Claim C6, as amended. Every tag that normalization returns has 1 to 50 characters, each
  of them alphanumeric in the sense of \<open>str.isalnum\<close>, a space, an underscore or a
  hyphen, and none an ASCII capital. \<open>str.isalnum\<close> holds for letters and digits
  beyond ASCII as well; a tag whose characters are all ASCII matches
  \<open>^[a-z0-9 _-]{1,50}$\<close>.
\<close>

theorem C6_tag_shape:
  assumes "t \<in> set (parse_tags lib text) \<or> t \<in> set (normalize lib text)"
  shows "1 \<le> length t \<and> length t \<le> 50
    \<and> list_all (\<lambda>c. kept_char c \<and> \<not> ascii_upper c) t
    \<and> (list_all (\<lambda>c. code c < 128) t \<longrightarrow> tag_regex t)"
proof -
  from assms obtain text' where "t \<in> set (parse_tags lib text')"
    by (auto simp: normalize_def)
  then obtain u where u: "t = clean u" and len: "1 \<le> length t" "length t \<le> 50"
    using parse_tags_clean by blast
  have chars: "list_all (\<lambda>c. kept_char c \<and> \<not> ascii_upper c) t"
    unfolding u list_all_iff using clean_chars by blast
  have "tag_regex t" if "list_all (\<lambda>c. code c < 128) t"
    unfolding tag_regex_def list_all_iff
    using len chars that ascii_kept_char by (auto simp: list_all_iff)
  with len chars show ?thesis
    by blast
qed

theorem C6_tag_shape_witness:
  "''red car'' \<in> set (normalize rejecting ''Red Car!, #x'')
   \<and> 1 \<le> length ''red car'' \<and> length ''red car'' \<le> 50
   \<and> list_all (\<lambda>c. kept_char c \<and> \<not> ascii_upper c) ''red car''
   \<and> tag_regex ''red car''"
proof -
  have a: "''red car'' \<in> set (normalize rejecting ''Red Car!, #x'')"
    by code_simp
  have b: "list_all (\<lambda>c. code c < 128) ''red car''"
    by code_simp
  from C6_tag_shape [of "''red car''" rejecting "''Red Car!, #x''"] a b show ?thesis
    by blast
qed

text \<open>
  The reply made of the single letter U+00E9 (e with acute accent) is returned as a tag,
  and it does not match the pattern.
\<close>

theorem C6_tag_shape_counterexample:
  "normalize rejecting [CHR 0xE9] = [[CHR 0xE9]] \<and> \<not> tag_regex [CHR 0xE9]"
  by code_simp

subsection \<open>The request id in the file name and in the record\<close>

lemma strip_where_Nil: "strip_where p s = [] \<longleftrightarrow> list_all p s"
proof
  assume "strip_where p s = []"
  then have all: "\<forall>x\<in>set (dropWhile p s). p x"
    by (simp add: strip_where_def)
  have "dropWhile p s = []"
  proof (cases "dropWhile p s")
    case Nil
    then show ?thesis .
  next
    case (Cons a as)
    then have "\<not> p a"
      using hd_dropWhile [of p s] by simp
    moreover have "p a"
      using all Cons by simp
    ultimately show ?thesis
      by simp
  qed
  then show "list_all p s"
    by (simp add: list_all_iff)
next
  assume "list_all p s"
  then have none: "dropWhile p s = []"
    by (simp add: list_all_iff)
  show "strip_where p s = []"
    unfolding strip_where_def none by simp
qed

lemma strip_Nil: "strip s = [] \<longleftrightarrow> list_all isspace s"
  by (simp add: strip_def strip_where_Nil)

lemma sanitize_chars: "list_all id_char (sanitize s)"
  by (auto simp: sanitize_def list_all_iff id_char_def)

lemma id_char_no_separator: "id_char c \<Longrightarrow> c \<noteq> CHR ''/'' \<and> c \<noteq> CHR 0x5C"
  by (auto simp: id_char_def ascii_upper_def ascii_lower_def ascii_digit_def code_def)

lemma safe_request_id_Some:
  "safe_request_id rid = Some s \<longleftrightarrow> (\<exists>r. rid = JStr r \<and> strip r \<noteq> [] \<and> s = sanitize (strip r))"
  by (cases rid) auto

lemma safe_request_id_None:
  "safe_request_id rid = None \<longleftrightarrow> (\<forall>r. rid = JStr r \<longrightarrow> list_all isspace r)"
  by (cases rid) (auto simp: strip_Nil)


lemma sanitize_not_Nil: "s \<noteq> [] \<Longrightarrow> sanitize s \<noteq> []"
  by (simp add: sanitize_def)

text \<open>
  Claim C3, as amended. The request id \<open>"../../x"\<close> gives the component
  \<open>"______x"\<close>: the dots are outside the class \<open>[A-Za-z0-9_-]\<close> as well, so all six
  characters before the \<open>x\<close> become underscores, and the file is \<open>5_______x.json\<close>
  for image 5. In general the request id is first stripped of the white space around it;
  then every character outside the class is replaced by an underscore and every other
  character stays. The component holds characters of the class only, so neither a slash
  nor a backslash.
\<close>

theorem C3_request_id_sanitized:
  "safe_request_id (JStr ''../../x'') = Some ''______x''
   \<and> result_name 5 (JStr ''../../x'') = ''5_______x.json''
   \<and> (safe_request_id rid = Some s \<longrightarrow>
        list_all id_char s \<and> CHR ''/'' \<notin> set s \<and> CHR 0x5C \<notin> set s
        \<and> (\<exists>r. rid = JStr r \<and> s = map (\<lambda>c. if id_char c then c else CHR ''_'') (strip r)))"
proof (intro conjI impI)
  show "safe_request_id (JStr ''../../x'') = Some ''______x''"
    by code_simp
  show "result_name 5 (JStr ''../../x'') = ''5_______x.json''"
    by code_simp
next
  assume a: "safe_request_id rid = Some s"
  then obtain r where r: "rid = JStr r" "s = sanitize (strip r)"
    by (auto simp: safe_request_id_Some)
  show "list_all id_char s"
    using r by (simp add: sanitize_chars)
  then show "CHR ''/'' \<notin> set s" and "CHR 0x5C \<notin> set s"
    using id_char_no_separator by (auto simp: list_all_iff)
  show "\<exists>r. rid = JStr r \<and> s = map (\<lambda>c. if id_char c then c else CHR ''_'') (strip r)"
    using r by (auto simp: sanitize_def)
qed

theorem C3_request_id_sanitized_witness:
  "safe_request_id (JStr '' a/b.c '') = Some ''a_b_c''
   \<and> list_all id_char ''a_b_c'' \<and> CHR ''/'' \<notin> set ''a_b_c'' \<and> CHR 0x5C \<notin> set ''a_b_c''
   \<and> (\<exists>r. JStr '' a/b.c '' = JStr r
          \<and> ''a_b_c'' = map (\<lambda>c. if id_char c then c else CHR ''_'') (strip r))"
proof -
  have a: "safe_request_id (JStr '' a/b.c '') = Some ''a_b_c''"
    by code_simp
  from C3_request_id_sanitized [of "JStr '' a/b.c ''" "''a_b_c''"] a show ?thesis
    by blast
qed

text \<open>
  The component for \<open>"../../x"\<close> is not \<open>".._.._x"\<close>; and the space in front of
  \<open>" x"\<close> is removed, not replaced.
\<close>

theorem C3_request_id_sanitized_counterexample:
  "safe_request_id (JStr ''../../x'') \<noteq> Some ''.._.._x''
   \<and> safe_request_id (JStr '' x'') = Some ''x''
   \<and> map (\<lambda>c. if id_char c then c else CHR ''_'') '' x'' = ''_x''"
  by code_simp

lemma write_result_ok:
  assumes "plugin_dir h = Inr dir" and "disk h (writes st) = NoFault"
  shows "write_result h image_id tags err rid st =
     (None, st\<lparr>writes := writes st + 1,
        files := ((files st)(path_join (path_join dir ''results'') (result_name image_id rid) @ ''.tmp'' := None))
                   (path_join (path_join dir ''results'') (result_name image_id rid)
                      \<mapsto> payload image_id tags err rid)\<rparr>)"
  using assms by (simp add: write_result_def Let_def)

text \<open>
  Claim C10. When the directory of the plugin is found and the disk takes the write,
  \<open>_write_result\<close> returns, and the file named by the image id, the suffix and
  \<open>.json\<close> holds the record whose \<open>request_id\<close> is the sanitized id, the one the
  suffix is made of. For a request id that is \<open>None\<close> or a string of white space only
  (the empty string too) the sanitized id is \<open>None\<close> and there is no suffix; for any
  other string it is the string stripped and with every character outside
  \<open>[A-Za-z0-9_-]\<close> replaced, and the suffix is an underscore and that id.
\<close>

theorem C10_request_id_field:
  "(plugin_dir h = Inr dir \<longrightarrow> disk h (writes st) = NoFault \<longrightarrow>
      fst (write_result h image_id tags err rid st) = None
      \<and> files (snd (write_result h image_id tags err rid st))
           (path_join (path_join dir ''results'')
              (str_int image_id @ suffix (safe_request_id rid) @ ''.json''))
         = Some \<lparr>rec_image_id = image_id, rec_tags = tags, rec_error = err,
                 rec_request_id = safe_request_id rid\<rparr>)
   \<and> (rid = JNull \<or> (\<exists>r. rid = JStr r \<and> list_all isspace r) \<longrightarrow>
        safe_request_id rid = None \<and> suffix (safe_request_id rid) = [])
   \<and> (\<forall>r. rid = JStr r \<and> \<not> list_all isspace r \<longrightarrow>
        safe_request_id rid = Some (sanitize (strip r))
        \<and> suffix (safe_request_id rid) = CHR ''_'' # sanitize (strip r))"
proof (intro conjI impI allI)
  assume a: "plugin_dir h = Inr dir" "disk h (writes st) = NoFault"
  show "fst (write_result h image_id tags err rid st) = None"
    using write_result_ok [OF a] by simp
  show "files (snd (write_result h image_id tags err rid st))
           (path_join (path_join dir ''results'')
              (str_int image_id @ suffix (safe_request_id rid) @ ''.json''))
         = Some \<lparr>rec_image_id = image_id, rec_tags = tags, rec_error = err,
                 rec_request_id = safe_request_id rid\<rparr>"
    using write_result_ok [OF a] by (simp add: result_name_def payload_def)
next
  assume "rid = JNull \<or> (\<exists>r. rid = JStr r \<and> list_all isspace r)"
  then have "safe_request_id rid = None"
    by (auto simp: safe_request_id_None)
  then show "safe_request_id rid = None" and "suffix (safe_request_id rid) = []"
    by (simp_all add: suffix_def)
next
  fix r assume "rid = JStr r \<and> \<not> list_all isspace r"
  then have r: "rid = JStr r" "strip r \<noteq> []"
    by (simp_all add: strip_Nil)
  then show "safe_request_id rid = Some (sanitize (strip r))"
    by simp
  with r show "suffix (safe_request_id rid) = CHR ''_'' # sanitize (strip r)"
    by (simp add: suffix_def sanitize_not_Nil)
qed

theorem C10_request_id_field_witness:
  "fst (write_result example_host 5 [''a'', ''b''] None (JStr ''a b'') empty_state) = None
   \<and> files (snd (write_result example_host 5 [''a'', ''b''] None (JStr ''a b'') empty_state))
        ''/plugins/llm_image_tag/results/5_a_b.json''
      = Some \<lparr>rec_image_id = 5, rec_tags = [''a'', ''b''], rec_error = None,
              rec_request_id = Some ''a_b''\<rparr>
   \<and> safe_request_id (JStr ''  '') = None \<and> suffix (safe_request_id (JStr ''  '')) = []
   \<and> safe_request_id (JStr ''a b'') = Some ''a_b''
   \<and> suffix (safe_request_id (JStr ''a b'')) = ''_a_b''"
proof -
  have a: "plugin_dir example_host = Inr ''/plugins/llm_image_tag''"
    by code_simp
  have b: "disk example_host (writes empty_state) = NoFault"
    by code_simp
  have c: "list_all isspace ''  ''" and d: "\<not> list_all isspace ''a b''"
    by code_simp+
  have e: "path_join (path_join ''/plugins/llm_image_tag'' ''results'')
      (str_int 5 @ suffix (safe_request_id (JStr ''a b'')) @ ''.json'')
      = ''/plugins/llm_image_tag/results/5_a_b.json''"
    by code_simp
  have f: "sanitize (strip ''a b'') = ''a_b''"
    by code_simp
  note w1 = C10_request_id_field [of example_host "''/plugins/llm_image_tag''" empty_state 5
      "[''a'', ''b'']" None "JStr ''a b''"]
  note w2 = C10_request_id_field [of example_host "''/plugins/llm_image_tag''" empty_state 5
      "[''a'', ''b'']" None "JStr ''  ''"]
  from w1 a b d e f have
    "fst (write_result example_host 5 [''a'', ''b''] None (JStr ''a b'') empty_state) = None"
    "files (snd (write_result example_host 5 [''a'', ''b''] None (JStr ''a b'') empty_state))
        ''/plugins/llm_image_tag/results/5_a_b.json''
      = Some \<lparr>rec_image_id = 5, rec_tags = [''a'', ''b''], rec_error = None,
              rec_request_id = Some ''a_b''\<rparr>"
    "safe_request_id (JStr ''a b'') = Some ''a_b''"
    "suffix (safe_request_id (JStr ''a b'')) = ''_a_b''"
    by auto
  moreover from w2 c have
    "safe_request_id (JStr ''  '') = None" "suffix (safe_request_id (JStr ''  '')) = []"
    by auto
  ultimately show ?thesis
    by simp
qed

subsection \<open>Exceptions in the orchestrator\<close>


lemma emit_fields [simp]:
  "writes (emit entry st) = writes st" "files (emit entry st) = files st"
  "stdout (emit entry st) = stdout st"
  by (simp_all add: emit_def)

lemma fetch_image_path_frame:
  "fetch_image_path h n st = (path, st1) \<Longrightarrow> writes st1 = writes st \<and> files st1 = files st"
  by (auto simp: fetch_image_path_def split: sum.splits)

lemma tagging_raises: "tagging h p = Inl e \<longleftrightarrow> model_reply h p = Inl e"
  by (auto simp: tagging_def and_then_def split: sum.splits)

lemma tagging_returns:
  "model_reply h p = Inr content \<Longrightarrow> tagging h p = Inr (normalize (json_lib h) content)"
  by (simp add: tagging_def and_then_def)

lemma tags_from_image_failed:
  "tagging h p = Inl e \<Longrightarrow>
     tags_from_image h p st = ([], emit (Error ''[LLMImageTag] Tagging failed'') st)"
  by (simp add: tags_from_image_def)

lemma tag_image_task_returns: "fst (tag_image_task h st) = None"
  by (simp add: tag_image_task_def split: prod.splits option.splits)

lemma py_int_not_None: "py_int v = Inr n \<Longrightarrow> v \<noteq> JNull"
  by auto

text \<open>
  Claim C1, as amended. \<open>tag_image_task\<close> never passes an exception to its caller.
  When an image path was found and the image fetch, the call of the model or the
  normalization raises, \<open>tags_from_image\<close> logs the exception and returns no tags; the
  exception does not reach \<open>tag_image_task\<close>. So, when the plugin directory is found
  and the disk takes the write, the record that is written has an empty tag list and the
  error \<open>null\<close>.
\<close>

theorem C1_swallowed_exception:
  "fst (tag_image_task h st) = None
   \<and> (arg h ''image_id'' = Inr v \<longrightarrow> py_int v = Inr n \<longrightarrow> arg h ''request_id'' = Inr rid
       \<longrightarrow> fetch_image_path h n st = (path, st1) \<longrightarrow> truthy path
       \<longrightarrow> tagging h path = Inl e
       \<longrightarrow> plugin_dir h = Inr dir \<longrightarrow> disk h (writes st) = NoFault
       \<longrightarrow> files (snd (tag_image_task h st))
             (path_join (path_join dir ''results'') (result_name n rid))
           = Some \<lparr>rec_image_id = n, rec_tags = [], rec_error = None,
                   rec_request_id = safe_request_id rid\<rparr>)"
proof (intro conjI impI)
  show "fst (tag_image_task h st) = None"
    by (rule tag_image_task_returns)
next
  assume a: "arg h ''image_id'' = Inr v" "py_int v = Inr n" "arg h ''request_id'' = Inr rid"
    "fetch_image_path h n st = (path, st1)" "truthy path" "tagging h path = Inl e"
    "plugin_dir h = Inr dir" "disk h (writes st) = NoFault"
  let ?st2 = "emit (Warn ''[LLMImageTag] No tags returned'')
      (emit (Error ''[LLMImageTag] Tagging failed'') st1)"
  have ti: "tag_image h n st = (Some [], ?st2)"
    using a by (simp add: tag_image_def tags_from_image_failed)
  have w: "writes ?st2 = writes st"
    using fetch_image_path_frame [OF a(4)] by simp
  have "task_body h st = write_result h n [] None rid ?st2"
    using a ti py_int_not_None [OF a(2)] by (simp add: task_body_def)
  also have "\<dots> = (None, ?st2\<lparr>writes := writes ?st2 + 1,
        files := ((files ?st2)(path_join (path_join dir ''results'') (result_name n rid) @ ''.tmp'' := None))
                   (path_join (path_join dir ''results'') (result_name n rid)
                      \<mapsto> payload n [] None rid)\<rparr>)"
    using a w by (intro write_result_ok) simp_all
  finally show "files (snd (tag_image_task h st))
             (path_join (path_join dir ''results'') (result_name n rid))
           = Some \<lparr>rec_image_id = n, rec_tags = [], rec_error = None,
                   rec_request_id = safe_request_id rid\<rparr>"
    by (simp add: tag_image_task_def payload_def)
qed


theorem C1_swallowed_exception_witness:
  "fst (tag_image_task example_host empty_state) = None
   \<and> files (snd (tag_image_task example_host empty_state))
        (path_join (path_join ''/plugins/llm_image_tag'' ''results'') (result_name 5 (JStr ''r-1'')))
      = Some \<lparr>rec_image_id = 5, rec_tags = [], rec_error = None,
              rec_request_id = safe_request_id (JStr ''r-1'')\<rparr>"
proof -
  have a: "arg example_host ''image_id'' = Inr (JInt 5)"
    and b: "py_int (JInt 5) = Inr 5"
    and c: "arg example_host ''request_id'' = Inr (JStr ''r-1'')"
    and f: "tagging example_host (JStr ''http://localhost:9999/image/5/image'')
      = Inl (Exn ''RuntimeError'' ''HTTP GET failed'')"
    and g: "plugin_dir example_host = Inr ''/plugins/llm_image_tag''"
    and i: "disk example_host (writes empty_state) = NoFault"
    and e: "truthy (JStr ''http://localhost:9999/image/5/image'')"
    by code_simp+
  have d: "fetch_image_path example_host 5 empty_state
      = (JStr ''http://localhost:9999/image/5/image'', empty_state)"
    by (simp add: fetch_image_path_def example_host_def and_then_def image_path_of_def
        get_def or_else_def)
  from C1_swallowed_exception [of example_host empty_state "JInt 5" 5 "JStr ''r-1''"
      "JStr ''http://localhost:9999/image/5/image''" empty_state
      "Exn ''RuntimeError'' ''HTTP GET failed''" "''/plugins/llm_image_tag''"]
    a b c d e f g i
  show ?thesis
    by blast
qed

text \<open>
  Reading the image fails on the example host, and the record written for image 5 has
  the error \<open>null\<close>.
\<close>

theorem C1_swallowed_exception_counterexample:
  "read_image_bytes example_host ''http://localhost:9999/image/5/image''
     = Inl (Exn ''RuntimeError'' ''HTTP GET failed'')
   \<and> files (snd (tag_image_task example_host empty_state))
        ''/plugins/llm_image_tag/results/5_r-1.json''
      = Some \<lparr>rec_image_id = 5, rec_tags = [], rec_error = None,
              rec_request_id = Some ''r-1''\<rparr>"
  by code_simp

subsection \<open>Normalization never raises\<close>

lemma parse_tags_checked_returns: "parse_tags_checked lib text = Inr (parse_tags lib text)"
  by (simp add: parse_tags_checked_def parse_tags_def candidates_def try_except_def
      and_then_def Let_def split: sum.splits)

lemma parse_tags_checked_fallback:
  assumes "json_candidates lib (slice (strip text) (find (CHR ''['') (strip text))
      (rfind (CHR '']'') (strip text) + 1)) = Inl e"
  shows "parse_tags_checked lib text =
     Inr (uniq_loop (cleaned (map strip
       (split (if CHR '','' \<in> set (strip text) then CHR '','' else CHR 0x0A) (strip text)))) {} [])"
  using assms
  by (simp add: parse_tags_checked_def try_except_def and_then_def Let_def)

text \<open>
  Claim C7, as amended. Normalization is total on strings: for every reply, and whatever
  the JSON library does, no exception leaves it, and it returns the sequence that
  \<open>normalize\<close> computes; the empty reply gives the empty sequence. When decoding the
  bracketed part of the text (or \<open>str\<close> of an element) raises, the exception is dropped
  and the result is the cleaned fallback split of the text without its duplicates, at
  the commas if the text has one and at the line ends otherwise; that sequence need not
  be empty.
\<close>

theorem C7_normalization_returns:
  "(\<exists>tags. normalize_checked lib content = Inr tags)
   \<and> normalize_checked lib content = Inr (normalize lib content)
   \<and> normalize_checked lib [] = Inr []
   \<and> (json_candidates lib (slice (strip text) (find (CHR ''['') (strip text))
          (rfind (CHR '']'') (strip text) + 1)) = Inl e
        \<longrightarrow> parse_tags_checked lib text =
            Inr (uniq_loop (cleaned (map strip
              (split (if CHR '','' \<in> set (strip text) then CHR '','' else CHR 0x0A)
                (strip text)))) {} []))"
proof (intro conjI impI)
  show same: "normalize_checked lib content = Inr (normalize lib content)"
    by (simp add: normalize_checked_def normalize_def and_then_def parse_tags_checked_returns)
  then show "\<exists>tags. normalize_checked lib content = Inr tags"
    by blast
  have "normalize lib [] = []"
    by code_simp
  then show "normalize_checked lib [] = Inr []"
    by (simp add: normalize_checked_def normalize_def and_then_def parse_tags_checked_returns)
qed (rule parse_tags_checked_fallback)

theorem C7_normalization_returns_witness:
  "normalize_checked rejecting ''[cat, dog]'' = Inr (normalize rejecting ''[cat, dog]'')
   \<and> normalize_checked rejecting [] = Inr []
   \<and> parse_tags_checked rejecting ''[cat, dog]'' = Inr [''cat'', ''dog'']"
proof -
  have raised: "json_candidates rejecting (slice (strip ''[cat, dog]'')
        (find (CHR ''['') (strip ''[cat, dog]'')) (rfind (CHR '']'') (strip ''[cat, dog]'') + 1))
      = Inl (Exn ''JSONDecodeError'' ''Expecting value'')"
    by code_simp
  have pieces: "uniq_loop (cleaned (map strip
        (split (if CHR '','' \<in> set (strip ''[cat, dog]'') then CHR '','' else CHR 0x0A)
          (strip ''[cat, dog]'')))) {} [] = [''cat'', ''dog'']"
    by code_simp
  from C7_normalization_returns [of rejecting "''[cat, dog]''" "''[cat, dog]''"
      "Exn ''JSONDecodeError'' ''Expecting value''"] raised pieces
  show ?thesis
    by simp
qed

text \<open>
  The reply \<open>[cat, dog]\<close> is not valid JSON: decoding raises inside the \<open>try\<close> block,
  and the sequence returned is \<open>["cat", "dog"]\<close>, not the empty one.
\<close>

theorem C7_normalization_returns_counterexample:
  "json_candidates rejecting ''[cat, dog]'' = Inl (Exn ''JSONDecodeError'' ''Expecting value'')
   \<and> normalize_checked rejecting ''[cat, dog]'' = Inr [''cat'', ''dog'']
   \<and> normalize rejecting ''[cat, dog]'' \<noteq> []"
  by code_simp

subsection \<open>Resolving the configuration\<close>

lemma first_accepted_append:
  "\<forall>u\<in>set vs. accepted u = None \<Longrightarrow> first_accepted (vs @ ws) = first_accepted ws"
  by (induction vs) auto

lemma first_accepted_none:
  "\<forall>u\<in>set vs. accepted u = None \<Longrightarrow> first_accepted vs = None"
  by (induction vs) auto

lemma blank_JStr: "blank (JStr s) \<longleftrightarrow> list_all isspace s"
  by (simp add: blank_def strip_Nil)

text \<open>
  Claim C4, as amended. For the base URL, a source is passed over unless it offers a
  string that is not white space only: the first source that does gives the URL,
  stripped and then without trailing slashes, and when none does the default is used.
  For the fields read by \<open>_env_or_setting\<close>: when the setting is not set, an
  environment variable that is missing or white space only gives the default and any
  other gives its value; a setting that is set and not a string of white space only is
  returned. In both cases the value is returned as it is, without being stripped.
\<close>

theorem C4_blank_is_absent:
  "accepted (JStr x) = (if list_all isspace x then None else Some (rstrip_char (CHR ''/'') (strip x)))
   \<and> (sources h = vs @ v # ws \<longrightarrow> (\<forall>u\<in>set vs. accepted u = None) \<longrightarrow> accepted v = Some url
        \<longrightarrow> resolve_base_url h = url)
   \<and> ((\<forall>u\<in>set (sources h). accepted u = None)
        \<longrightarrow> resolve_base_url h = ''http://localhost:11434/v1'')
   \<and> (setting h name = Inr JNull
        \<longrightarrow> environ h env = None \<or> (\<exists>s. environ h env = Some s \<and> list_all isspace s)
        \<longrightarrow> env_or_setting h name env dflt = Inr dflt)
   \<and> (setting h name = Inr JNull \<longrightarrow> environ h env = Some s \<longrightarrow> \<not> list_all isspace s
        \<longrightarrow> env_or_setting h name env dflt = Inr (JStr s))
   \<and> (setting h name = Inr v' \<longrightarrow> v' \<noteq> JNull \<longrightarrow> \<not> blank v'
        \<longrightarrow> env_or_setting h name env dflt = Inr v')"
proof (intro conjI impI)
  show "accepted (JStr x) = (if list_all isspace x then None else Some (rstrip_char (CHR ''/'') (strip x)))"
    by (simp add: strip_Nil)
next
  assume "sources h = vs @ v # ws" "\<forall>u\<in>set vs. accepted u = None" "accepted v = Some url"
  then show "resolve_base_url h = url"
    by (simp add: resolve_base_url_def first_accepted_append)
next
  assume "\<forall>u\<in>set (sources h). accepted u = None"
  then have "first_accepted (sources h) = None"
    by (rule first_accepted_none)
  moreover have "rstrip_char (CHR ''/'') DEFAULT_BASE_URL = ''http://localhost:11434/v1''"
    by code_simp
  ultimately show "resolve_base_url h = ''http://localhost:11434/v1''"
    by (simp add: resolve_base_url_def)
next
  assume "setting h name = Inr JNull"
    "environ h env = None \<or> (\<exists>s. environ h env = Some s \<and> list_all isspace s)"
  then show "env_or_setting h name env dflt = Inr dflt"
    by (auto simp: env_or_setting_def and_then_def blank_JStr)
next
  assume "setting h name = Inr JNull" "environ h env = Some s" "\<not> list_all isspace s"
  then show "env_or_setting h name env dflt = Inr (JStr s)"
    by (simp add: env_or_setting_def and_then_def blank_JStr)
next
  assume "setting h name = Inr v'" "v' \<noteq> JNull" "\<not> blank v'"
  then show "env_or_setting h name env dflt = Inr v'"
    by (simp add: env_or_setting_def and_then_def)
qed


theorem C4_blank_is_absent_witness:
  "accepted (JStr ''  '') = None
   \<and> resolve_base_url (example_host\<lparr>setting := (\<lambda>name. Inr (JStr ''  '')),
         environ := (\<lambda>name. Some '' http://h:1/v1// '')\<rparr>) = ''http://h:1/v1''
   \<and> resolve_base_url example_host = ''http://localhost:11434/v1''
   \<and> env_or_setting (example_host\<lparr>environ := (\<lambda>name. Some ''  '')\<rparr>)
        ''llmModel'' ''LLM_MODEL'' (JStr DEFAULT_MODEL) = Inr (JStr DEFAULT_MODEL)
   \<and> env_or_setting (example_host\<lparr>environ := (\<lambda>name. Some '' llava '')\<rparr>)
        ''llmModel'' ''LLM_MODEL'' (JStr DEFAULT_MODEL) = Inr (JStr '' llava '')
   \<and> env_or_setting (example_host\<lparr>setting := (\<lambda>name. Inr (JInt 256))\<rparr>)
        ''llmMaxTokens'' ''LLM_MAX_TOKENS'' DEFAULT_MAX_TOKENS = Inr (JInt 256)"
proof -
  let ?h1 = "example_host\<lparr>setting := (\<lambda>name. Inr (JStr ''  '')),
         environ := (\<lambda>name. Some '' http://h:1/v1// '')\<rparr>"
  let ?h2 = "example_host\<lparr>environ := (\<lambda>name. Some ''  '')\<rparr>"
  let ?h3 = "example_host\<lparr>environ := (\<lambda>name. Some '' llava '')\<rparr>"
  let ?h4 = "example_host\<lparr>setting := (\<lambda>name. Inr (JInt 256))\<rparr>"
  have blank: "list_all isspace ''  ''" and filled: "\<not> list_all isspace '' llava ''"
    by code_simp+
  have s1: "sources ?h1 = [JNull, JStr ''  '', JNull, JNull] @ JStr '' http://h:1/v1// '' # []"
    by code_simp
  have n1: "\<forall>u\<in>set [JNull, JStr ''  '', JNull, JNull]. accepted u = None"
    by code_simp
  have a1: "accepted (JStr '' http://h:1/v1// '') = Some ''http://h:1/v1''"
    by code_simp
  have s0: "\<forall>u\<in>set (sources example_host). accepted u = None"
    by code_simp
  have e2: "setting ?h2 ''llmModel'' = Inr JNull" "environ ?h2 ''LLM_MODEL'' = Some ''  ''"
    and e3: "setting ?h3 ''llmModel'' = Inr JNull" "environ ?h3 ''LLM_MODEL'' = Some '' llava ''"
    and e4: "setting ?h4 ''llmMaxTokens'' = Inr (JInt 256)" "\<not> blank (JInt 256)"
    by code_simp+
  from C4_blank_is_absent [of "''  ''" ?h1 "[JNull, JStr ''  '', JNull, JNull]"
      "JStr '' http://h:1/v1// ''" "[]" "''http://h:1/v1''"] blank s1 n1 a1
  have "accepted (JStr ''  '') = None" and "resolve_base_url ?h1 = ''http://h:1/v1''"
    by simp_all
  moreover from C4_blank_is_absent [of "[]" example_host] s0
  have "resolve_base_url example_host = ''http://localhost:11434/v1''"
    by blast
  moreover from C4_blank_is_absent [of "[]" ?h2 "[]" JNull "[]" "[]" "''llmModel''" "''LLM_MODEL''"
      "JStr DEFAULT_MODEL"] e2 blank
  have "env_or_setting ?h2 ''llmModel'' ''LLM_MODEL'' (JStr DEFAULT_MODEL) = Inr (JStr DEFAULT_MODEL)"
    by blast
  moreover from C4_blank_is_absent [of "[]" ?h3 "[]" JNull "[]" "[]" "''llmModel''" "''LLM_MODEL''"
      "JStr DEFAULT_MODEL" "'' llava ''"] e3 filled
  have "env_or_setting ?h3 ''llmModel'' ''LLM_MODEL'' (JStr DEFAULT_MODEL) = Inr (JStr '' llava '')"
    by blast
  moreover from C4_blank_is_absent [of "[]" ?h4 "[]" JNull "[]" "[]" "''llmMaxTokens''"
      "''LLM_MAX_TOKENS''" DEFAULT_MAX_TOKENS "[]" "JInt 256"] e4
  have "env_or_setting ?h4 ''llmMaxTokens'' ''LLM_MAX_TOKENS'' DEFAULT_MAX_TOKENS = Inr (JInt 256)"
    by blast
  ultimately show ?thesis
    by simp
qed

text \<open>The model name \<open>" llava "\<close> is resolved with its spaces.\<close>

theorem C4_blank_is_absent_counterexample:
  "env_or_setting
      (example_host\<lparr>setting := (\<lambda>name. if name = ''llmModel'' then Inr (JStr '' llava '')
         else Inr JNull)\<rparr>)
      ''llmModel'' ''LLM_MODEL'' (JStr DEFAULT_MODEL) = Inr (JStr '' llava '')
   \<and> (case load_config
         (example_host\<lparr>setting := (\<lambda>name. if name = ''llmModel'' then Inr (JStr '' llava '')
            else Inr JNull)\<rparr>)
       of Inl e \<Rightarrow> None | Inr cfg \<Rightarrow> Some (MODEL cfg)) = Some '' llava ''
   \<and> strip '' llava '' = ''llava''"
  by code_simp

subsection \<open>The end of the run\<close>

lemma write_result_stdout: "stdout (snd (write_result h n ts err rid st)) = stdout st"
  by (simp add: write_result_def Let_def split: sum.splits disk_fault.splits)

lemma tag_image_stdout: "stdout (snd (tag_image h n st)) = stdout st"
  by (auto simp: tag_image_def fetch_image_path_def tags_from_image_def Let_def
      split: sum.splits prod.splits)

lemma tag_image_stdout_pair: "tag_image h n st = (r, st1) \<Longrightarrow> stdout st1 = stdout st"
  using tag_image_stdout [of h n st] by simp

lemma task_body_stdout: "stdout (snd (task_body h st)) = stdout st"
  by (auto simp: task_body_def Let_def write_result_stdout dest!: tag_image_stdout_pair
      split: sum.splits prod.splits option.splits)

lemma task_body_stdout_pair: "task_body h st = (r, st1) \<Longrightarrow> stdout st1 = stdout st"
  using task_body_stdout [of h st] by simp

lemma task_handler_stdout: "stdout (task_handler h e st) = stdout st"
  by (auto simp: task_handler_def Let_def write_result_stdout split: sum.splits exn.splits)

lemma tag_image_task_stdout: "stdout (snd (tag_image_task h st)) = stdout st"
  by (auto simp: tag_image_task_def task_handler_stdout dest!: task_body_stdout_pair
      split: prod.splits option.splits)

lemma dispatch_stdout: "stdout (snd (dispatch h st)) = stdout st"
  by (auto simp: dispatch_def Let_def tag_image_task_stdout split: sum.splits)

lemma dispatch_stdout_pair: "dispatch h st = (r, st1) \<Longrightarrow> stdout st1 = stdout st"
  using dispatch_stdout [of h st] by simp

text \<open>
  When the configuration loads and the standard output can be written, the run prints
  \<open>null\<close> last and ends with status 0.
\<close>

lemma run_plugin_prints_null:
  assumes "load_config h = Inr cfg" and "stdout_fault h = None"
  shows "exit_status (run_plugin h st) = 0
    \<and> stdout (final (run_plugin h st)) = stdout st @ [''null'']"
  using assms
  by (auto simp: run_plugin_def print_null_def Let_def dest!: dispatch_stdout_pair
      split: prod.splits option.splits)

text \<open>
  Claim C5 fails on the code: with the setting \<open>llmTemp\<close> set to \<open>"abc"\<close>,
  \<open>float\<close> raises in line 176, outside every \<open>try\<close> block, so the run ends with
  status 1 and nothing on the standard output.
\<close>

theorem C5_malformed_setting_ends_run:
  "exit_status
      (run_plugin
         (example_host\<lparr>setting := (\<lambda>name. if name = ''llmTemp'' then Inr (JStr ''abc'')
            else Inr JNull)\<rparr>) empty_state) = 1
   \<and> stdout (final
      (run_plugin
         (example_host\<lparr>setting := (\<lambda>name. if name = ''llmTemp'' then Inr (JStr ''abc'')
            else Inr JNull)\<rparr>) empty_state)) = []"
  by code_simp

end
